theory Spec2Isabelle
  imports Complex_Main "HOL-Library.Sublist" "HOL-Library.Char_ord" "HOL-Library.List_Lexorder"
begin

unbundle bit_operations_syntax

section \<open>Strings as Python 2 byte strings\<close>

text \<open>
  The script \<^verbatim>\<open>depot_tools/win_toolchain/get_toolchain_if_necessary.py\<close> runs on
  Windows Python 2.7: \<^verbatim>\<open>str\<close> is a byte string, \<^verbatim>\<open>os.path\<close> is
  \<^verbatim>\<open>ntpath\<close> and \<^verbatim>\<open>os.sep\<close> is the backslash. The model below is the
  drive-free fragment of \<^verbatim>\<open>ntpath\<close>: no path carries a drive letter or a UNC prefix.
\<close>

type_synonym path = string

abbreviation bslash :: char where
  "bslash \<equiv> CHR 0x5C"

definition lower_char :: "char \<Rightarrow> char" where
  "lower_char c = (let n = (of_char c :: nat) in if 65 \<le> n \<and> n \<le> 90 then char_of (n + 32) else c)"

definition lower :: "string \<Rightarrow> string" where
  \<comment> \<open>\<^verbatim>\<open>s.lower()\<close> on ASCII bytes\<close>
  "lower s = map lower_char s"

function replace :: "string \<Rightarrow> string \<Rightarrow> string \<Rightarrow> string" where
  \<comment> \<open>\<^verbatim>\<open>s.replace(old, new)\<close>: every non-overlapping occurrence, left to right\<close>
  "replace old new [] = (if old = [] then new else [])"
| "replace old new (c # cs) =
     (if old = [] then new @ c # replace old new cs
      else if prefix old (c # cs) then new @ replace old new (drop (length old) (c # cs))
      else c # replace old new cs)"
  by pat_completeness auto
termination
  by (relation "measure (\<lambda>(old, new, s). length s)") auto

fun split_on :: "char \<Rightarrow> string \<Rightarrow> string list" where
  \<comment> \<open>\<^verbatim>\<open>s.split(d)\<close> for a one-character separator\<close>
  "split_on d [] = [[]]"
| "split_on d (c # cs) =
     (if c = d then [] # split_on d cs
      else (case split_on d cs of p # ps \<Rightarrow> (c # p) # ps | [] \<Rightarrow> [[c]]))"

fun join_with :: "string \<Rightarrow> string list \<Rightarrow> string" where
  \<comment> \<open>\<^verbatim>\<open>sep.join(xs)\<close>\<close>
  "join_with sep [] = []"
| "join_with sep [x] = x"
| "join_with sep (x # y # ys) = x @ sep @ join_with sep (y # ys)"

section \<open>SHA-1 (\<^verbatim>\<open>hashlib.sha1\<close>) on 32-bit words written as integers modulo \<open>2 ^ 32\<close>\<close>

definition w32 :: "int \<Rightarrow> int" where
  "w32 x = x mod 4294967296"

definition rotl32 :: "nat \<Rightarrow> int \<Rightarrow> int" where
  "rotl32 n x = w32 (x * 2 ^ n) + x div 2 ^ (32 - n)"

definition sha1_pad :: "string \<Rightarrow> int list" where
  "sha1_pad m = (let n = length m in
     map of_char m @ [128] @ replicate ((119 - n mod 64) mod 64) 0 @
     map (\<lambda>i. (int (8 * n) div 256 ^ (7 - i)) mod 256) [0..<8])"

fun be_words :: "int list \<Rightarrow> int list" where
  "be_words (a # b # c # d # r) = (((a * 256 + b) * 256 + c) * 256 + d) # be_words r"
| "be_words _ = []"

fun chunks :: "nat \<Rightarrow> 'a list \<Rightarrow> 'a list list" where
  "chunks 0 xs = []"
| "chunks n [] = []"
| "chunks n xs = take n xs # chunks n (drop n xs)"

fun schedule :: "nat \<Rightarrow> int list \<Rightarrow> int list" where
  \<comment> \<open>the message schedule, newest word first\<close>
  "schedule 0 ws = ws"
| "schedule (Suc k) ws =
     schedule k (rotl32 1 (ws ! 2 XOR ws ! 7 XOR ws ! 13 XOR ws ! 15) # ws)"

definition sha1_f :: "nat \<Rightarrow> int \<Rightarrow> int \<Rightarrow> int \<Rightarrow> int" where
  "sha1_f t b c d =
     (if t < 20 then (b AND c) OR ((b XOR 4294967295) AND d)
      else if t < 40 then b XOR c XOR d
      else if t < 60 then (b AND c) OR (b AND d) OR (c AND d)
      else b XOR c XOR d)"

definition sha1_k :: "nat \<Rightarrow> int" where
  "sha1_k t =
     (if t < 20 then 0x5A827999 else if t < 40 then 0x6ED9EBA1
      else if t < 60 then 0x8F1BBCDC else 0xCA62C1D6)"

type_synonym sha1_state = "int \<times> int \<times> int \<times> int \<times> int"

fun sha1_round :: "sha1_state \<Rightarrow> nat \<times> int \<Rightarrow> sha1_state" where
  "sha1_round (a, b, c, d, e) (t, w) =
     (w32 (rotl32 5 a + sha1_f t b c d + e + sha1_k t + w), a, rotl32 30 b, c, d)"

fun sha1_block :: "sha1_state \<Rightarrow> int list \<Rightarrow> sha1_state" where
  "sha1_block (h0, h1, h2, h3, h4) blk =
     (case foldl sha1_round (h0, h1, h2, h3, h4)
             (zip [0..<80] (rev (schedule 64 (rev blk)))) of
        (a, b, c, d, e) \<Rightarrow>
          (w32 (h0 + a), w32 (h1 + b), w32 (h2 + c), w32 (h3 + d), w32 (h4 + e)))"

definition hex_digit :: "int \<Rightarrow> char" where
  "hex_digit n = ''0123456789abcdef'' ! nat n"

definition hex32 :: "int \<Rightarrow> string" where
  "hex32 w = map (\<lambda>i. hex_digit ((w div 16 ^ (7 - i)) mod 16)) [0..<8]"

definition sha1_hexdigest :: "string \<Rightarrow> string" where
  \<comment> \<open>\<^verbatim>\<open>hashlib.sha1(m).hexdigest()\<close>; successive \<^verbatim>\<open>update\<close> calls concatenate\<close>
  "sha1_hexdigest m =
     (case foldl sha1_block (0x67452301, 0xEFCDAB89, 0x98BADCFE, 0x10325476, 0xC3D2E1F0)
             (chunks 16 (be_words (sha1_pad m))) of
        (a, b, c, d, e) \<Rightarrow> hex32 a @ hex32 b @ hex32 c @ hex32 d @ hex32 e)"

section \<open>The file system seen from the working directory\<close>

text \<open>
  A directory lists its entries in the order \<^verbatim>\<open>os.listdir\<close> returns them. Modification
  times are the floats of \<^verbatim>\<open>os.path.getmtime\<close>, read as real numbers.
\<close>

datatype node =
    File (mtime: real) (data: string)
  | Dir (mtime: real) (entries: "(string \<times> node) list")

datatype error =
    AssertionError
  | OSError path
  | IOError path
  | ValueError string
  | BadZipfile
  | SystemExit int string

datatype event =
    Stdout string
  | Stderr string
  | ReadFile path
  | WriteFile path
  | Utime path
  | Mkdir path
  | Remove path
  | RmTree path
  | Taskkill string
  | Sleep
  | NetworkProbe string
  | Download string
  | Extract path
  | CopyFile path path

definition is_sep :: "char \<Rightarrow> bool" where
  "is_sep c = (c = bslash \<or> c = CHR ''/'')"

definition isabs :: "path \<Rightarrow> bool" where
  \<comment> \<open>\<^verbatim>\<open>ntpath.isabs\<close> without a drive\<close>
  "isabs p = (p \<noteq> [] \<and> is_sep (hd p))"

definition join :: "path \<Rightarrow> path \<Rightarrow> path" where
  \<comment> \<open>\<^verbatim>\<open>ntpath.join(a, b)\<close> without drives\<close>
  "join a b =
     (if b \<noteq> [] \<and> is_sep (hd b) then b
      else (if a \<noteq> [] \<and> \<not> is_sep (last a) then a @ [bslash] else a) @ b)"

fun norm_comps :: "bool \<Rightarrow> string list \<Rightarrow> string list \<Rightarrow> string list" where
  \<comment> \<open>the component loop of \<^verbatim>\<open>ntpath.normpath\<close>; the kept components are held reversed\<close>
  "norm_comps rooted acc [] = rev acc"
| "norm_comps rooted acc (c # cs) =
     (if c = ''.'' \<or> c = [] then norm_comps rooted acc cs
      else if c = ''..'' then
        (case acc of
           a # as \<Rightarrow>
             if a \<noteq> ''..'' then norm_comps rooted as cs else norm_comps rooted (c # acc) cs
         | [] \<Rightarrow> if rooted then norm_comps rooted acc cs else norm_comps rooted (c # acc) cs)
      else norm_comps rooted (c # acc) cs)"

definition normpath :: "path \<Rightarrow> path" where
  "normpath p =
     (let q = replace ''/'' [bslash] p;
          pre = takeWhile (\<lambda>c. c = bslash) q;
          comps = norm_comps (pre \<noteq> []) [] (split_on bslash (dropWhile (\<lambda>c. c = bslash) q))
      in if pre = [] \<and> comps = [] then ''.'' else pre @ join_with [bslash] comps)"

definition path_comps :: "path \<Rightarrow> string list option" where
  \<comment> \<open>the components Windows follows from the working directory; \<^verbatim>\<open>..\<close> is resolved
      lexically, and a path that leaves the working directory is outside the model\<close>
  "path_comps p =
     (if isabs p then None
      else (let cs = norm_comps False [] (split_on bslash (replace ''/'' [bslash] p))
            in if cs \<noteq> [] \<and> hd cs = ''..'' then None else Some cs))"

fun find_entry :: "string \<Rightarrow> (string \<times> node) list \<Rightarrow> node option" where
  \<comment> \<open>Windows file names are matched without regard to case\<close>
  "find_entry c [] = None"
| "find_entry c ((n, t) # es) = (if lower n = lower c then Some t else find_entry c es)"

fun lookup :: "node \<Rightarrow> string list \<Rightarrow> node option" where
  "lookup n [] = Some n"
| "lookup n (c # cs) =
     (case n of
        File _ _ \<Rightarrow> None
      | Dir _ es \<Rightarrow> (case find_entry c es of None \<Rightarrow> None | Some n' \<Rightarrow> lookup n' cs))"

definition resolve :: "node \<Rightarrow> path \<Rightarrow> node option" where
  "resolve fs p = (case path_comps p of None \<Rightarrow> None | Some cs \<Rightarrow> lookup fs cs)"

definition exists :: "node \<Rightarrow> path \<Rightarrow> bool" where
  "exists fs p = (resolve fs p \<noteq> None)"

definition isdir :: "node \<Rightarrow> path \<Rightarrow> bool" where
  "isdir fs p = (case resolve fs p of Some (Dir _ _) \<Rightarrow> True | _ \<Rightarrow> False)"

definition isfile :: "node \<Rightarrow> path \<Rightarrow> bool" where
  "isfile fs p = (case resolve fs p of Some (File _ _) \<Rightarrow> True | _ \<Rightarrow> False)"

definition getmtime :: "node \<Rightarrow> path \<Rightarrow> error + real" where
  "getmtime fs p = (case resolve fs p of None \<Rightarrow> Inl (OSError p) | Some n \<Rightarrow> Inr (mtime n))"

definition open_read :: "node \<Rightarrow> path \<Rightarrow> error + string" where
  \<comment> \<open>\<^verbatim>\<open>open(p, 'rb').read()\<close>\<close>
  "open_read fs p = (case resolve fs p of Some (File _ d) \<Rightarrow> Inr d | _ \<Rightarrow> Inl (IOError p))"

definition listdir :: "node \<Rightarrow> path \<Rightarrow> error + string list" where
  "listdir fs p =
     (case resolve fs p of Some (Dir _ es) \<Rightarrow> Inr (map fst es) | _ \<Rightarrow> Inl (OSError p))"

definition is_Dir :: "node \<Rightarrow> bool" where
  "is_Dir t = (case t of Dir _ _ \<Rightarrow> True | File _ _ \<Rightarrow> False)"

fun walk :: "path \<Rightarrow> node \<Rightarrow> (path \<times> string list \<times> string list) list" where
  \<comment> \<open>\<^verbatim>\<open>os.walk(top)\<close>, top-down, on the directory found at \<^verbatim>\<open>top\<close>\<close>
  "walk tp (File _ _) = []"
| "walk tp (Dir _ es) =
     (tp, map fst (filter (\<lambda>e. is_Dir (snd e)) es),
           map fst (filter (\<lambda>e. \<not> is_Dir (snd e)) es))
     # concat (map (\<lambda>e. walk (join tp (fst e)) (snd e)) (filter (\<lambda>e. is_Dir (snd e)) es))"

definition os_walk :: "node \<Rightarrow> path \<Rightarrow> (path \<times> string list \<times> string list) list" where
  \<comment> \<open>a top that cannot be listed yields nothing (\<^verbatim>\<open>onerror\<close> is \<^verbatim>\<open>None\<close>)\<close>
  "os_walk fs tp = (case resolve fs tp of Some t \<Rightarrow> walk tp t | None \<Rightarrow> [])"

section \<open>The file list and the content hash\<close>

definition WER :: string where
  "WER = ''WER'' @ [bslash] @ ''ReportQueue''"

definition GetFileList :: "node \<Rightarrow> path \<Rightarrow> error + path list" where
  "GetFileList fs rootdir =
     (if isabs rootdir then Inl AssertionError
      else if normpath rootdir \<noteq> rootdir then Inl AssertionError
      else Inr (sort_key (replace ''/'' [bslash])
             (concat (map (\<lambda>(base, dirs, files).
                        map lower (filter (\<lambda>x. \<not> sublist WER x) (map (join base) files)))
                      (os_walk fs rootdir)))))"

definition MakeTimestampsFileName :: "path \<Rightarrow> string \<Rightarrow> path" where
  "MakeTimestampsFileName rootdir sha1 = join (join rootdir ''..'') (sha1 @ ''.timestamps'')"

record timestamps_data =
  ts_files :: "(path \<times> real) list"
  ts_sha1 :: string

text \<open>
  \<^verbatim>\<open>json.load\<close> is a library function: it is a parameter, \<open>None\<close> standing for the
  \<^verbatim>\<open>ValueError\<close> of a text that is not JSON. A text that parses has the shape
  \<^verbatim>\<open>SaveTimestampsAndHash\<close> writes.
\<close>

type_synonym json_load = "string \<Rightarrow> timestamps_data option"

definition load_timestamps :: "json_load \<Rightarrow> node \<Rightarrow> path \<Rightarrow> event list \<times> (error + timestamps_data)" where
  \<comment> \<open>lines 103 to 110 of the script\<close>
  "load_timestamps jl fs timestamps_file =
     (if exists fs timestamps_file then
        (case open_read fs timestamps_file of
           Inl e \<Rightarrow> ([], Inl e)
         | Inr text \<Rightarrow>
             ([ReadFile timestamps_file],
              Inr (case jl text of
                     Some d \<Rightarrow> d
                   | None \<Rightarrow> \<lparr>ts_files = [], ts_sha1 = []\<rparr>)))
      else ([], Inr \<lparr>ts_files = [], ts_sha1 = []\<rparr>))"

fun timestamps_match :: "node \<Rightarrow> path \<Rightarrow> (path \<times> (path \<times> real)) list \<Rightarrow> error + bool" where
  \<comment> \<open>the loop of lines 117 to 121: the first difference ends it\<close>
  "timestamps_match fs vc_dir [] = Inr True"
| "timestamps_match fs vc_dir ((disk, cached) # rest) =
     (if disk \<noteq> fst cached then Inr False
      else if disk \<noteq> vc_dir then
        (case getmtime fs disk of
           Inl e \<Rightarrow> Inl e
         | Inr t \<Rightarrow> if t \<noteq> snd cached then Inr False else timestamps_match fs vc_dir rest)
      else timestamps_match fs vc_dir rest)"

definition path_without_hash :: "path \<Rightarrow> string \<Rightarrow> path \<Rightarrow> path" where
  \<comment> \<open>lines 130 to 133\<close>
  "path_without_hash rootdir expected_hash p =
     (let q = replace ''/'' [bslash] p
      in if expected_hash \<noteq> []
         then replace (replace ''/'' [bslash] (join rootdir expected_hash)) rootdir q
         else q)"

fun digest_input :: "node \<Rightarrow> path \<Rightarrow> string \<Rightarrow> path list \<Rightarrow> event list \<times> (error + string)" where
  \<comment> \<open>the loop of lines 129 to 136: what \<^verbatim>\<open>digest.update\<close> receives, in order\<close>
  "digest_input fs rootdir expected_hash [] = ([], Inr [])"
| "digest_input fs rootdir expected_hash (p # ps) =
     (case open_read fs p of
        Inl e \<Rightarrow> ([], Inl e)
      | Inr bytes \<Rightarrow>
          (case digest_input fs rootdir expected_hash ps of
             (evs, Inl e) \<Rightarrow> (ReadFile p # evs, Inl e)
           | (evs, Inr s) \<Rightarrow>
               (ReadFile p # evs, Inr (path_without_hash rootdir expected_hash p @ bytes @ s))))"

definition calculating :: "path \<Rightarrow> event" where
  "calculating full_root_path =
     Stdout (''Calculating hash of toolchain in '' @ full_root_path @ ''. Please wait...'')"

definition full_root_path :: "path \<Rightarrow> string \<Rightarrow> path" where
  \<comment> \<open>lines 94 to 97\<close>
  "full_root_path rootdir expected_hash =
     (if expected_hash \<noteq> [] then join rootdir expected_hash else rootdir)"

definition CalculateHash :: "json_load \<Rightarrow> node \<Rightarrow> path \<Rightarrow> string \<Rightarrow> event list \<times> (error + string)" where
  "CalculateHash jl fs rootdir expected_hash =
     (case GetFileList fs (full_root_path rootdir expected_hash) of
        Inl e \<Rightarrow> ([], Inl e)
      | Inr file_list \<Rightarrow>
         (case load_timestamps jl fs (MakeTimestampsFileName rootdir expected_hash) of
            (evs, Inl e) \<Rightarrow> (evs, Inl e)
          | (evs, Inr timestamps_data) \<Rightarrow>
             (case (if length file_list = length (ts_files timestamps_data)
                    then timestamps_match fs
                           (lower (join (full_root_path rootdir expected_hash) ''VC''))
                           (zip file_list (ts_files timestamps_data))
                    else Inr False) of
                Inl e \<Rightarrow> (evs, Inl e)
              | Inr True \<Rightarrow> (evs, Inr (ts_sha1 timestamps_data))
              | Inr False \<Rightarrow>
                 (case digest_input fs rootdir expected_hash file_list of
                    (evs', Inl e) \<Rightarrow>
                      (evs @ calculating (full_root_path rootdir expected_hash) # evs', Inl e)
                  | (evs', Inr s) \<Rightarrow>
                      (evs @ calculating (full_root_path rootdir expected_hash) # evs',
                       Inr (sha1_hexdigest s))))))"

section \<open>Changing the file system\<close>

text \<open>
  The operations below are what the script's calls do to the tree. A directory's own
  modification time changes only through \<^verbatim>\<open>os.utime\<close>; the operations take no time,
  except \<^verbatim>\<open>time.sleep\<close>.
\<close>

fun update_entry :: "string \<Rightarrow> (node \<Rightarrow> node) \<Rightarrow> (string \<times> node) list \<Rightarrow> (string \<times> node) list" where
  "update_entry c f [] = []"
| "update_entry c f ((n, t) # es) =
     (if lower n = lower c then (n, f t) # es else (n, t) # update_entry c f es)"

fun remove_entry :: "string \<Rightarrow> (string \<times> node) list \<Rightarrow> (string \<times> node) list" where
  "remove_entry c [] = []"
| "remove_entry c ((n, t) # es) =
     (if lower n = lower c then es else (n, t) # remove_entry c es)"

definition set_entry :: "string \<Rightarrow> node \<Rightarrow> (string \<times> node) list \<Rightarrow> (string \<times> node) list" where
  "set_entry c t es =
     (if find_entry c es = None then es @ [(c, t)] else update_entry c (\<lambda>old. t) es)"

primrec update_at :: "string list \<Rightarrow> (node \<Rightarrow> node) \<Rightarrow> node \<Rightarrow> node" where
  "update_at [] f n = f n"
| "update_at (c # cs) f n =
     (case n of
        File m d \<Rightarrow> File m d
      | Dir m es \<Rightarrow> Dir m (update_entry c (update_at cs f) es))"

definition set_mtime :: "real \<Rightarrow> node \<Rightarrow> node" where
  "set_mtime t n = (case n of File m d \<Rightarrow> File t d | Dir m es \<Rightarrow> Dir t es)"

definition on_entries :: "((string \<times> node) list \<Rightarrow> (string \<times> node) list) \<Rightarrow> node \<Rightarrow> node" where
  "on_entries f n = (case n of File m d \<Rightarrow> File m d | Dir m es \<Rightarrow> Dir m (f es))"

definition write_node :: "string list \<Rightarrow> node \<Rightarrow> node \<Rightarrow> node" where
  "write_node cs t fs = update_at (butlast cs) (on_entries (set_entry (last cs) t)) fs"

definition delete_node :: "string list \<Rightarrow> node \<Rightarrow> node" where
  "delete_node cs fs = update_at (butlast cs) (on_entries (remove_entry (last cs))) fs"

definition os_utime :: "node \<Rightarrow> path \<Rightarrow> real \<Rightarrow> error + node" where
  \<comment> \<open>\<^verbatim>\<open>os.utime(p, None)\<close> at time \<open>now\<close>\<close>
  "os_utime fs p now =
     (case path_comps p of
        None \<Rightarrow> Inl (OSError p)
      | Some cs \<Rightarrow>
          (case lookup fs cs of
             None \<Rightarrow> Inl (OSError p)
           | Some n \<Rightarrow> Inr (update_at cs (set_mtime now) fs)))"

definition os_remove :: "node \<Rightarrow> path \<Rightarrow> error + node" where
  "os_remove fs p =
     (case path_comps p of
        None \<Rightarrow> Inl (OSError p)
      | Some cs \<Rightarrow>
          (case lookup fs cs of
             Some (File m d) \<Rightarrow> Inr (delete_node cs fs)
           | _ \<Rightarrow> Inl (OSError p)))"

definition RmDir :: "node \<Rightarrow> path \<Rightarrow> node" where
  \<comment> \<open>\<^verbatim>\<open>rmdir /s/q\<close> or \<^verbatim>\<open>shutil.rmtree(path, ignore_errors=True)\<close>, taken to succeed;
      the working directory itself is never removed\<close>
  "RmDir fs p =
     (case path_comps p of
        None \<Rightarrow> fs
      | Some cs \<Rightarrow> if cs = [] then fs else delete_node cs fs)"

definition open_write :: "node \<Rightarrow> path \<Rightarrow> string \<Rightarrow> real \<Rightarrow> error + node" where
  \<comment> \<open>\<^verbatim>\<open>open(p, 'w').write(text)\<close> at time \<open>now\<close>\<close>
  "open_write fs p text now =
     (case path_comps p of
        None \<Rightarrow> Inl (IOError p)
      | Some cs \<Rightarrow>
          if cs = [] then Inl (IOError p)
          else (case lookup fs (butlast cs) of
                  Some (Dir m es) \<Rightarrow>
                    (case lookup fs cs of
                       Some (Dir m' es') \<Rightarrow> Inl (IOError p)
                     | _ \<Rightarrow> Inr (write_node cs (File now text) fs))
                | _ \<Rightarrow> Inl (IOError p)))"

definition os_mkdir :: "node \<Rightarrow> path \<Rightarrow> real \<Rightarrow> error + node" where
  "os_mkdir fs p now =
     (case path_comps p of
        None \<Rightarrow> Inl (OSError p)
      | Some cs \<Rightarrow>
          if cs = [] then Inl (OSError p)
          else (case lookup fs (butlast cs) of
                  Some (Dir m es) \<Rightarrow>
                    (case lookup fs cs of
                       None \<Rightarrow> Inr (write_node cs (Dir now []) fs)
                     | Some n \<Rightarrow> Inl (OSError p))
                | _ \<Rightarrow> Inl (OSError p)))"

fun put_path :: "string list \<Rightarrow> string \<Rightarrow> real \<Rightarrow> node \<Rightarrow> node option" where
  \<comment> \<open>one member of an archive: missing directories are made, a file in the way fails\<close>
  "put_path [] text now n = (case n of File m d \<Rightarrow> Some (File now text) | Dir m es \<Rightarrow> None)"
| "put_path (c # cs) text now n =
     (case n of
        File m d \<Rightarrow> None
      | Dir m es \<Rightarrow>
          (case put_path cs text now
                  (case find_entry c es of
                     Some t \<Rightarrow> t
                   | None \<Rightarrow> if cs = [] then File now [] else Dir now []) of
             None \<Rightarrow> None
           | Some t' \<Rightarrow> Some (Dir m (set_entry c t' es))))"

fun extract_members :: "string list \<Rightarrow> (string list \<times> string) list \<Rightarrow> real \<Rightarrow> node \<Rightarrow> node option" where
  "extract_members target [] now fs = Some fs"
| "extract_members target ((rel, text) # ms) now fs =
     (case put_path (target @ rel) text now fs of
        None \<Rightarrow> None
      | Some fs' \<Rightarrow> extract_members target ms now fs')"

section \<open>The world of one run\<close>

record world =
  tree :: node
  clock :: real
  trace :: "event list"

record data_json =
  dj_path :: string
  dj_version :: string
  dj_win_sdk :: string
  dj_win8sdk :: string
  dj_wdk :: string
  dj_runtime_dirs :: "string list"

text \<open>
  What the run is given: the command line, the environment variables it reads, the answers
  of the programs it starts, and the library functions \<^verbatim>\<open>json.load\<close>,
  \<^verbatim>\<open>json.dump\<close> and \<^verbatim>\<open>zipfile\<close>.
\<close>

record env =
  platform :: string
  basedir :: path
  force :: bool
  output_json :: "path option"
  args :: "string list"
  gyp_msvs_version :: "string option"
  userdomain :: "string option"
  chrome_headless :: "bool option"
  use_local_zip :: "bool option"
  svn_ls :: bool
  git_remote_show :: bool
  gsutil_ls :: "nat \<Rightarrow> bool"
  gsutil_cp :: "string \<Rightarrow> int \<times> string"
  unzip :: "string \<Rightarrow> (string list \<times> string) list option"
  json_load_ts :: json_load
  json_dump_ts :: "timestamps_data \<Rightarrow> string"
  json_dump_data :: "data_json \<Rightarrow> string"
  cygwin_exit :: int

definition emit :: "event list \<Rightarrow> world \<Rightarrow> world" where
  "emit evs w = w\<lparr>trace := trace w @ evs\<rparr>"

definition bind_w :: "(error + 'a) \<times> world \<Rightarrow> ('a \<Rightarrow> world \<Rightarrow> (error + 'b) \<times> world) \<Rightarrow> (error + 'b) \<times> world" where
  \<comment> \<open>an exception ends the sequence, the world staying as it was when it was raised\<close>
  "bind_w r f = (case r of (Inl e, w) \<Rightarrow> (Inl e, w) | (Inr a, w) \<Rightarrow> f a w)"

fun hashes_of :: "json_load \<Rightarrow> path \<Rightarrow> string list \<Rightarrow> world \<Rightarrow> (error + string list) \<times> world" where
  \<comment> \<open>the loop of lines 146 to 147\<close>
  "hashes_of jl rootdir [] w = (Inr [], w)"
| "hashes_of jl rootdir (d # ds) w =
     (case CalculateHash jl (tree w) rootdir d of
        (evs, Inl e) \<Rightarrow> (Inl e, emit evs w)
      | (evs, Inr h) \<Rightarrow>
          bind_w (hashes_of jl rootdir ds (emit evs w)) (\<lambda>hs w'. (Inr (h # hs), w')))"

definition CalculateToolchainHashes :: "json_load \<Rightarrow> path \<Rightarrow> world \<Rightarrow> (error + string list) \<times> world" where
  "CalculateToolchainHashes jl rootdir w =
     (case listdir (tree w) rootdir of
        Inl e \<Rightarrow> (Inl e, w)
      | Inr names \<Rightarrow>
          hashes_of jl rootdir (filter (\<lambda>d. isdir (tree w) (join rootdir d)) names) w)"

fun getmtimes :: "node \<Rightarrow> path list \<Rightarrow> error + (path \<times> real) list" where
  "getmtimes fs [] = Inr []"
| "getmtimes fs (f # rest) =
     (case getmtime fs f of
        Inl e \<Rightarrow> Inl e
      | Inr t \<Rightarrow> (case getmtimes fs rest of Inl e \<Rightarrow> Inl e | Inr ts \<Rightarrow> Inr ((f, t) # ts)))"

definition SaveTimestampsAndHash :: "env \<Rightarrow> path \<Rightarrow> string \<Rightarrow> world \<Rightarrow> (error + unit) \<times> world" where
  "SaveTimestampsAndHash ev rootdir sha1 w =
     (case GetFileList (tree w) (join rootdir sha1) of
        Inl e \<Rightarrow> (Inl e, w)
      | Inr file_list \<Rightarrow>
          (case getmtimes (tree w) file_list of
             Inl e \<Rightarrow> (Inl e, w)
           | Inr ts \<Rightarrow>
               (case open_write (tree w) (MakeTimestampsFileName rootdir sha1)
                       (json_dump_ts ev \<lparr>ts_files = ts, ts_sha1 = sha1\<rparr>) (clock w) of
                  Inl e \<Rightarrow> (Inl e, w)
                | Inr fs' \<Rightarrow>
                    (Inr (), emit [WriteFile (MakeTimestampsFileName rootdir sha1)]
                               (w\<lparr>tree := fs'\<rparr>)))))"

section \<open>Removing toolchains\<close>

definition countdown :: "event list" where
  \<comment> \<open>the nine lines and sleeps of lines 221 to 226\<close>
  "countdown =
     concat (map (\<lambda>i. [Stdout (CHR 0x0D # ''Removing old toolchain in '' @ [char_of (48 + i)]
                                @ ''s... (Ctrl-C to cancel)''), Sleep])
                 (rev [1..<10::nat])) @ [Stdout []]"

definition DelayBeforeRemoving :: "env \<Rightarrow> path \<Rightarrow> world \<Rightarrow> (error + unit) \<times> world" where
  "DelayBeforeRemoving ev target_dir w =
     (if isdir (tree w) target_dir then
        (case chrome_headless ev of
           None \<Rightarrow> (Inl (ValueError ''CHROME_HEADLESS''), w)
         | Some headless \<Rightarrow>
             if \<not> headless then (Inr (), emit countdown (w\<lparr>clock := clock w + 9\<rparr>))
             else (Inr (), w))
      else (Inr (), w))"

definition RemoveToolchain :: "env \<Rightarrow> path \<Rightarrow> string \<Rightarrow> bool \<Rightarrow> world \<Rightarrow> (error + unit) \<times> world" where
  "RemoveToolchain ev rootdir sha1 delay_before_removing w =
     bind_w (if delay_before_removing then DelayBeforeRemoving ev (join rootdir sha1) w
             else (Inr (), w))
       (\<lambda>u w1.
          let w2 = (if platform ev = ''win32''
                    then emit [Taskkill ''mspdbsrv.exe'', Taskkill ''vctip.exe''] w1 else w1);
              w3 = (if isdir (tree w2) (join rootdir sha1)
                    then emit [RmTree (join rootdir sha1)]
                           (w2\<lparr>tree := RmDir (tree w2) (join rootdir sha1)\<rparr>)
                    else w2)
          in if exists (tree w3) (MakeTimestampsFileName rootdir sha1) then
               (case os_remove (tree w3) (MakeTimestampsFileName rootdir sha1) of
                  Inl e \<Rightarrow> (Inl e, w3)
                | Inr fs' \<Rightarrow>
                    (Inr (), emit [Remove (MakeTimestampsFileName rootdir sha1)]
                               (w3\<lparr>tree := fs'\<rparr>)))
             else (Inr (), w3))"

fun scan_root :: "path \<Rightarrow> string list \<Rightarrow> world \<Rightarrow> (error + (real \<times> string) list \<times> string list) \<times> world" where
  \<comment> \<open>the loop of lines 297 to 306; it returns \<^verbatim>\<open>valid_toolchains\<close> and
      \<^verbatim>\<open>dirs_to_remove\<close>\<close>
  "scan_root rootdir [] w = (Inr ([], []), w)"
| "scan_root rootdir (d # ds) w =
     (if isdir (tree w) (join rootdir d) then
        (if \<not> exists (tree w) (MakeTimestampsFileName rootdir d) then
           bind_w (scan_root rootdir ds w) (\<lambda>(valid, dirs) w'. (Inr (valid, d # dirs), w'))
         else
           (case getmtime (tree w) (join (join rootdir d) ''VC'') of
              Inl e \<Rightarrow> (Inl e, w)
            | Inr t \<Rightarrow>
                bind_w (scan_root rootdir ds w)
                  (\<lambda>(valid, dirs) w'. (Inr ((t, d) # valid, dirs), w'))))
      else if isfile (tree w) (join rootdir d) then
        (case os_remove (tree w) (join rootdir d) of
           Inl e \<Rightarrow> (Inl e, w)
         | Inr fs' \<Rightarrow> scan_root rootdir ds (emit [Remove (join rootdir d)] (w\<lparr>tree := fs'\<rparr>)))
      else scan_root rootdir ds w)"

fun remove_unknown :: "env \<Rightarrow> path \<Rightarrow> string list \<Rightarrow> world \<Rightarrow> (error + unit) \<times> world" where
  \<comment> \<open>the loop of lines 308 to 313\<close>
  "remove_unknown ev rootdir [] w = (Inr (), w)"
| "remove_unknown ev rootdir (d # ds) w =
     bind_w (RemoveToolchain ev rootdir d False
               (emit [Stdout (''Removing '' @ join rootdir d
                        @ '' as it doesn't correspond to any known toolchain.'')] w))
       (\<lambda>u w'. remove_unknown ev rootdir ds w')"

definition toolchain_expiration_time :: real where
  "toolchain_expiration_time = 60 * 60 * 24 * 30"

function decimal :: "nat \<Rightarrow> string" where
  "decimal n = (if n < 10 then [char_of (48 + n)] else decimal (n div 10) @ [char_of (48 + n mod 10)])"
  by pat_completeness auto
termination
  by (relation "measure (\<lambda>n. n)") auto

definition expired_message :: "string \<Rightarrow> real \<Rightarrow> string" where
  \<comment> \<open>the age, positive here, is printed in whole days (\<^verbatim>\<open>%d\<close>)\<close>
  "expired_message sha1 age =
     ''Removing version '' @ sha1 @ '' of the Win toolchain has it hasn't been used in the past ''
       @ decimal (nat \<lfloor>age / 60 / 60 / 24\<rfloor>) @ '' days.''"

fun remove_expired :: "env \<Rightarrow> path \<Rightarrow> (real \<times> string) list \<Rightarrow> world \<Rightarrow> (error + unit) \<times> world" where
  \<comment> \<open>the loop of lines 318 to 324; \<^verbatim>\<open>time.time()\<close> reads the clock at each turn\<close>
  "remove_expired ev rootdir [] w = (Inr (), w)"
| "remove_expired ev rootdir (toolchain # rest) w =
     (if clock w - fst toolchain > toolchain_expiration_time then
        bind_w (RemoveToolchain ev rootdir (snd toolchain) True
                  (emit [Stdout (expired_message (snd toolchain) (clock w - fst toolchain))] w))
          (\<lambda>u w'. remove_expired ev rootdir rest w')
      else remove_expired ev rootdir rest w)"

definition RemoveUnusedToolchains :: "env \<Rightarrow> path \<Rightarrow> world \<Rightarrow> (error + unit) \<times> world" where
  "RemoveUnusedToolchains ev rootdir w =
     (case listdir (tree w) rootdir of
        Inl e \<Rightarrow> (Inl e, w)
      | Inr names \<Rightarrow>
          bind_w (scan_root rootdir names w)
            (\<lambda>(valid_toolchains, dirs_to_remove) w1.
               bind_w (remove_unknown ev rootdir dirs_to_remove w1)
                 (\<lambda>u w2. remove_expired ev rootdir valid_toolchains w2)))"

section \<open>The program\<close>

datatype 'a step = Return int | Continue 'a

definition upper_char :: "char \<Rightarrow> char" where
  "upper_char c = (let n = (of_char c :: nat) in if 97 \<le> n \<and> n \<le> 122 then char_of (n - 32) else c)"

definition is_space :: "char \<Rightarrow> bool" where
  "is_space c = (c \<in> set [CHR '' '', CHR 0x09, CHR 0x0A, CHR 0x0B, CHR 0x0C, CHR 0x0D])"

definition strip :: "string \<Rightarrow> string" where
  "strip s = rev (dropWhile is_space (rev (dropWhile is_space s)))"

definition startswith :: "string \<Rightarrow> string \<Rightarrow> bool" where
  "startswith s p = prefix p s"

definition gsutil_ls_probe :: event where
  "gsutil_ls_probe = NetworkProbe ''gsutil ls gs://chrome-wintoolchain/''"

definition HaveSrcInternalAccess :: "env \<Rightarrow> world \<Rightarrow> bool \<times> world" where
  "HaveSrcInternalAccess ev w =
     (if svn_ls ev then (True, emit [NetworkProbe ''svn ls''] w)
      else (git_remote_show ev, emit [NetworkProbe ''svn ls'', NetworkProbe ''git remote show''] w))"

definition LooksLikeGoogler :: "env \<Rightarrow> bool" where
  "LooksLikeGoogler ev =
     (map upper_char (case userdomain ev of Some u \<Rightarrow> u | None \<Rightarrow> []) = ''GOOGLE'')"

definition CanAccessToolchainBucket :: "env \<Rightarrow> world \<Rightarrow> bool \<times> world" where
  \<comment> \<open>the answer of the n-th \<^verbatim>\<open>gsutil ls\<close> of the run\<close>
  "CanAccessToolchainBucket ev w =
     (gsutil_ls ev (length (filter (\<lambda>e. e = gsutil_ls_probe) (trace w))),
      emit [gsutil_ls_probe] w)"

definition RequestGsAuthentication :: "world \<Rightarrow> (error + 'a) \<times> world" where
  \<comment> \<open>the printed instructions, then \<^verbatim>\<open>sys.exit(1)\<close>\<close>
  "RequestGsAuthentication w =
     (Inl (SystemExit 1 []),
      emit [Stdout ''Access to gs://chrome-wintoolchain/ not configured.''] w)"

definition DownloadUsingGsutil :: "env \<Rightarrow> string \<Rightarrow> world \<Rightarrow> (error + string) \<times> world" where
  \<comment> \<open>the temporary directory is outside the tree: the result is the text of the file\<close>
  "DownloadUsingGsutil ev filename w =
     (if list_ex is_sep filename then (Inl AssertionError, w)
      else (case gsutil_cp ev filename of
              (code, text) \<Rightarrow>
                if code \<noteq> 0 then (Inl (SystemExit 1 ''gsutil failed''), emit [Download filename] w)
                else (Inr text, emit [Download filename] w)))"

definition DoTreeMirror :: "env \<Rightarrow> path \<Rightarrow> string \<Rightarrow> world \<Rightarrow> (error + unit) \<times> world" where
  "DoTreeMirror ev target_dir tree_sha1 w =
     (case use_local_zip ev of
        None \<Rightarrow> (Inl (ValueError ''USE_LOCAL_ZIP''), w)
      | Some local \<Rightarrow>
          bind_w (if local then
                    (case open_read (tree w) (tree_sha1 @ ''.zip'') of
                       Inl e \<Rightarrow>
                         (Inl e, emit [Stdout (''Extracting '' @ tree_sha1 @ ''.zip...'')] w)
                     | Inr text \<Rightarrow>
                         (Inr text, emit [Stdout (''Extracting '' @ tree_sha1 @ ''.zip...''),
                                          ReadFile (tree_sha1 @ ''.zip'')] w))
                  else
                    bind_w (DownloadUsingGsutil ev (tree_sha1 @ ''.zip'') w)
                      (\<lambda>text w1.
                         (Inr text, emit [Stdout (''Extracting '' @ tree_sha1 @ ''.zip...'')] w1)))
            (\<lambda>text w1.
               (case unzip ev text of
                  None \<Rightarrow> (Inl BadZipfile, w1)
                | Some members \<Rightarrow>
                    (case path_comps target_dir of
                       None \<Rightarrow> (Inl (IOError target_dir), w1)
                     | Some cs \<Rightarrow>
                         (case extract_members cs members (clock w1) (tree w1) of
                            None \<Rightarrow> (Inl (IOError target_dir), w1)
                          | Some fs' \<Rightarrow>
                              (Inr (), emit [Extract target_dir] (w1\<lparr>tree := fs'\<rparr>)))))))"

definition target_dir_of :: "env \<Rightarrow> path" where
  \<comment> \<open>lines 390 to 394\<close>
  "target_dir_of ev =
     (if gyp_msvs_version ev = Some ''2015'' then normpath (join ''.'' ''vs_files'')
      else normpath (join ''.'' ''vs2013_files''))"

definition abspath :: "env \<Rightarrow> path \<Rightarrow> path" where
  "abspath ev p = normpath (join (basedir ev) p)"

definition data_json_name :: "env \<Rightarrow> path" where
  "data_json_name ev = join (join (target_dir_of ev) ''..'') ''data.json''"

definition main_acquire :: "env \<Rightarrow> string \<Rightarrow> world \<Rightarrow> (error + bool step) \<times> world" where
  \<comment> \<open>lines 401 to 428; the result is \<^verbatim>\<open>got_new_toolchain\<close>\<close>
  "main_acquire ev desired_hash w =
     bind_w (CalculateToolchainHashes (json_load_ts ev) (target_dir_of ev) w)
       (\<lambda>current_hashes w1.
          if desired_hash \<notin> set current_hashes then
            (case HaveSrcInternalAccess ev w1 of
               (internal, w2) \<Rightarrow>
                 (case (if internal \<or> LooksLikeGoogler ev then (True, w2)
                        else CanAccessToolchainBucket ev w2) of
                    (should_use_gs, w3) \<Rightarrow>
                      if \<not> should_use_gs then
                        (Inr (Return 1),
                         emit [Stdout ''Please follow the instructions at https://www.chromium.org/developers/how-tos/build-instructions-windows''] w3)
                      else
                        (case CanAccessToolchainBucket ev w3 of
                           (can, w4) \<Rightarrow>
                             if \<not> can then RequestGsAuthentication w4
                             else
                               bind_w (DoTreeMirror ev (join (target_dir_of ev) desired_hash)
                                         desired_hash
                                         (emit [Stdout ''Windows toolchain out of date or doesn't exist, updating (Pro)...'',
                                                Stdout (''  current_hashes: '' @ join_with '', '' current_hashes),
                                                Stdout (''  desired_hash: '' @ desired_hash)] w4))
                                 (\<lambda>u w5. (Inr (Continue True), w5)))))
          else (Inr (Continue False), w1))"

definition main_info :: "env \<Rightarrow> string \<Rightarrow> world \<Rightarrow> (error + unit) \<times> world" where
  \<comment> \<open>lines 430 to 458: the version file, the touch of \<^verbatim>\<open>VC\<close>, and \<^verbatim>\<open>data.json\<close>\<close>
  "main_info ev desired_hash w =
     (let toolchain_target_dir = join (target_dir_of ev) desired_hash;
          abs_toolchain_target_dir = abspath ev toolchain_target_dir;
          version_file = join toolchain_target_dir ''VS_VERSION'';
          vc_dir = join toolchain_target_dir ''VC''
      in bind_w
           (case open_read (tree w) version_file of
              Inl e \<Rightarrow> (Inr (''2013'', join abs_toolchain_target_dir ''win8sdk''), w)
            | Inr text \<Rightarrow>
                (case os_utime (tree w) vc_dir (clock w) of
                   Inl e \<Rightarrow> (Inl e, emit [ReadFile version_file] w)
                 | Inr fs' \<Rightarrow>
                     (Inr (strip text, join abs_toolchain_target_dir ''win_sdk''),
                      emit [ReadFile version_file, Utime vc_dir] (w\<lparr>tree := fs'\<rparr>))))
           (\<lambda>(vs_version, win_sdk) w1.
              (case open_write (tree w1) (data_json_name ev)
                      (json_dump_data ev
                         \<lparr>dj_path = abs_toolchain_target_dir,
                          dj_version = vs_version,
                          dj_win_sdk = win_sdk,
                          dj_win8sdk = win_sdk,
                          dj_wdk = join abs_toolchain_target_dir ''wdk'',
                          dj_runtime_dirs = [join abs_toolchain_target_dir ''sys64'',
                                             join abs_toolchain_target_dir ''sys32'']\<rparr>)
                      (clock w1) of
                 Inl e \<Rightarrow> (Inl e, w1)
               | Inr fs' \<Rightarrow> (Inr (), emit [WriteFile (data_json_name ev)] (w1\<lparr>tree := fs'\<rparr>)))))"

definition wrong_hash_message :: "string \<Rightarrow> string list \<Rightarrow> string" where
  "wrong_hash_message desired_hash current_hashes =
     ''Got wrong hash after pulling a new toolchain. Wanted '' @ [CHR 0x27] @ desired_hash
       @ [CHR 0x27] @ '', got one of '' @ [CHR 0x27] @ join_with '', '' current_hashes
       @ [CHR 0x27] @ ''.''"

definition main_verify :: "env \<Rightarrow> string \<Rightarrow> bool \<Rightarrow> world \<Rightarrow> (error + unit step) \<times> world" where
  \<comment> \<open>lines 460 to 468\<close>
  "main_verify ev desired_hash got_new_toolchain w =
     (if got_new_toolchain then
        bind_w (CalculateToolchainHashes (json_load_ts ev) (target_dir_of ev) w)
          (\<lambda>current_hashes w1.
             if desired_hash \<notin> set current_hashes then
               (Inr (Return 1), emit [Stderr (wrong_hash_message desired_hash current_hashes)] w1)
             else
               bind_w (SaveTimestampsAndHash ev (target_dir_of ev) desired_hash w1)
                 (\<lambda>u w2. (Inr (Continue ()), w2)))
      else (Inr (Continue ()), w))"

definition copy_output :: "env \<Rightarrow> world \<Rightarrow> (error + unit) \<times> world" where
  \<comment> \<open>lines 470 to 472\<close>
  "copy_output ev w =
     (case output_json ev of
        None \<Rightarrow> (Inr (), w)
      | Some out \<Rightarrow>
          (case open_read (tree w) (data_json_name ev) of
             Inl e \<Rightarrow> (Inl e, w)
           | Inr text \<Rightarrow>
               (case open_write (tree w) out text (clock w) of
                  Inl e \<Rightarrow> (Inl e, w)
                | Inr fs' \<Rightarrow>
                    (Inr (), emit [CopyFile (data_json_name ev) out] (w\<lparr>tree := fs'\<rparr>)))))"

definition main_finish :: "env \<Rightarrow> world \<Rightarrow> (error + int) \<times> world" where
  \<comment> \<open>lines 470 to 479; \<^verbatim>\<open>InstallUniversalCRTIfNeeded\<close> returns at once\<close>
  "main_finish ev w =
     bind_w (copy_output ev w)
       (\<lambda>u w1. bind_w (RemoveUnusedToolchains ev (target_dir_of ev) w1)
                  (\<lambda>u w2. (Inr 0, w2)))"

definition main_body :: "env \<Rightarrow> string \<Rightarrow> world \<Rightarrow> (error + int) \<times> world" where
  \<comment> \<open>lines 401 to 479\<close>
  "main_body ev desired_hash w =
     bind_w (main_acquire ev desired_hash w)
       (\<lambda>r w1. case r of
            Return code \<Rightarrow> (Inr code, w1)
          | Continue got_new_toolchain \<Rightarrow>
              bind_w (main_info ev desired_hash w1)
                (\<lambda>u w2. bind_w (main_verify ev desired_hash got_new_toolchain w2)
                   (\<lambda>r w3. case r of
                        Return code \<Rightarrow> (Inr code, w3)
                      | Continue u \<Rightarrow> main_finish ev w3)))"

definition main :: "env \<Rightarrow> world \<Rightarrow> (error + int) \<times> world" where
  "main ev w =
     (if \<not> (startswith (platform ev) ''cygwin'' \<or> startswith (platform ev) ''win32'' \<or> force ev)
      then (Inr 0, w)
      else if platform ev = ''cygwin'' then (Inl (SystemExit (cygwin_exit ev) []), w)
      else if args ev = [] then (Inl (SystemExit 1 ''Desired hash is required.''), w)
      else
        bind_w (if \<not> isdir (tree w) (target_dir_of ev) then
                  (case os_mkdir (tree w) (target_dir_of ev) (clock w) of
                     Inl e \<Rightarrow> (Inl e, w)
                   | Inr fs' \<Rightarrow> (Inr (), emit [Mkdir (target_dir_of ev)] (w\<lparr>tree := fs'\<rparr>)))
                else (Inr (), w))
          (\<lambda>u w1. main_body ev (hd (args ev)) w1))"

definition exit_code :: "error + int \<Rightarrow> int" where
  \<comment> \<open>what \<^verbatim>\<open>sys.exit(main())\<close> gives the process: an uncaught exception exits with 1\<close>
  "exit_code r = (case r of Inr n \<Rightarrow> n | Inl (SystemExit n msg) \<Rightarrow> n | Inl e \<Rightarrow> 1)"

section \<open>Well-formed trees and the paths of a walk\<close>

definition plain_name :: "string \<Rightarrow> bool" where
  \<comment> \<open>a name \<^verbatim>\<open>os.listdir\<close> can return\<close>
  "plain_name n = (n \<noteq> [] \<and> \<not> list_ex is_sep n \<and> n \<noteq> ''.'' \<and> n \<noteq> ''..'')"

fun wf_tree :: "node \<Rightarrow> bool" where
  \<comment> \<open>a Windows directory tree: plain names, no two in a directory equal up to case\<close>
  "wf_tree (File m d) = True"
| "wf_tree (Dir m es) =
     (list_all (\<lambda>e. plain_name (fst e)) es \<and> distinct (map (\<lambda>e. lower (fst e)) es)
      \<and> (\<forall>e \<in> set es. wf_tree (snd e)))"

definition comps_raw :: "path \<Rightarrow> string list" where
  "comps_raw p = split_on bslash (replace ''/'' [bslash] p)"

fun raw_paths :: "path \<Rightarrow> node \<Rightarrow> path list" where
  \<comment> \<open>the paths of the files \<^verbatim>\<open>os.walk\<close> yields, in its order\<close>
  "raw_paths tp (File m d) = []"
| "raw_paths tp (Dir m es) =
     map (\<lambda>e. join tp (fst e)) (filter (\<lambda>e. \<not> is_Dir (snd e)) es)
     @ concat (map (\<lambda>e. raw_paths (join tp (fst e)) (snd e)) (filter (\<lambda>e. is_Dir (snd e)) es))"

fun find_stored :: "string \<Rightarrow> (string \<times> node) list \<Rightarrow> (string \<times> node) option" where
  "find_stored c [] = None"
| "find_stored c ((n, t) # es) = (if lower n = lower c then Some (n, t) else find_stored c es)"

fun stored_path :: "path \<Rightarrow> node \<Rightarrow> string list \<Rightarrow> path option" where
  \<comment> \<open>the path \<^verbatim>\<open>os.walk\<close> builds, from the names as stored, for what the components reach\<close>
  "stored_path tp n [] = Some tp"
| "stored_path tp n (c # cs) =
     (case n of
        File m d \<Rightarrow> None
      | Dir m es \<Rightarrow>
          (case find_stored c es of
             None \<Rightarrow> None
           | Some (k, t) \<Rightarrow> stored_path (join tp k) t cs))"

definition listed :: "path \<Rightarrow> node \<Rightarrow> path list" where
  \<comment> \<open>the file list before it is sorted\<close>
  "listed tp t = map lower (filter (\<lambda>x. \<not> sublist WER x) (raw_paths tp t))"

section \<open>Example file systems\<close>

definition fs_empty_version :: node where
  \<comment> \<open>a version directory \<^verbatim>\<open>vs_files/abc\<close> with no file in it and no sidecar\<close>
  "fs_empty_version = Dir 0 [(''vs_files'', Dir 1 [(''abc'', Dir 2 [(''VC'', Dir 3 [])])])]"

definition fs_corrupt_sidecar :: node where
  \<comment> \<open>the same empty version directory beside a sidecar that is not JSON\<close>
  "fs_corrupt_sidecar =
     Dir 0 [(''vs_files'', Dir 1 [(''abc'', Dir 2 [(''VC'', Dir 3 [])])]),
            (''abc.timestamps'', File 4 ''{not json'')]"

section \<open>Checks of the model against known values\<close>

lemma sha1_empty: "sha1_hexdigest [] = ''da39a3ee5e6b4b0d3255bfef95601890afd80709''"
  by code_simp

lemma sha1_abc: "sha1_hexdigest ''abc'' = ''a9993e364706816aba3e25717850c26c9cd0d89d''"
  by code_simp

lemma sha1_hexdigest_length: "length (sha1_hexdigest m) = 40"
  by (simp add: sha1_hexdigest_def hex32_def split: prod.splits)

section \<open>Paths, names and walks\<close>

subsection \<open>Strings and paths\<close>

lemma replace_char: "replace [c] [d] s = map (\<lambda>x. if x = c then d else x) s"
  by (induction s) auto

lemma split_on_nonempty: "split_on d s \<noteq> []"
  by (induction s) (auto split: list.splits)

lemma split_on_append: "split_on d (a @ d # b) = split_on d a @ split_on d b"
  by (induction a) (auto split: list.splits simp: split_on_nonempty)

lemma split_on_plain: "d \<notin> set n \<Longrightarrow> split_on d (a @ n) = butlast (split_on d a) @ [last (split_on d a) @ n]"
proof (induction a)
  case Nil
  then show ?case by (induction n) auto
next
  case (Cons c a)
  then show ?case
    by (cases "split_on d a") (auto simp: split_on_nonempty split: list.splits)
qed

lemma split_on_None: "d \<notin> set n \<Longrightarrow> split_on d n = [n]"
  using split_on_plain [of d n "[]"] by simp

lemma norm_comps_append:
  "norm_comps r acc (xs @ ys) = norm_comps r (rev (norm_comps r acc xs)) ys"
  by (induction xs arbitrary: acc) (auto split: list.splits)

lemma plain_name_replace: "plain_name n \<Longrightarrow> replace ''/'' [bslash] n = n"
  by (induction n) (auto simp: plain_name_def replace_char is_sep_def list_ex_iff map_idI)

lemma plain_name_no_bslash: "plain_name n \<Longrightarrow> bslash \<notin> set n"
  by (auto simp: plain_name_def is_sep_def list_ex_iff)

lemma plain_name_hd: "plain_name n \<Longrightarrow> n \<noteq> [] \<and> \<not> is_sep (hd n) \<and> \<not> is_sep (last n)"
  unfolding plain_name_def list_ex_iff
  by (metis hd_in_set last_in_set)

lemma join_plain:
  "plain_name n \<Longrightarrow> join a n = (if a \<noteq> [] \<and> \<not> is_sep (last a) then a @ bslash # n else a @ n)"
  using plain_name_hd [of n] by (simp add: join_def)

lemma norm_comps_plain:
  "plain_name n \<Longrightarrow> norm_comps r acc (xs @ [n]) = norm_comps r acc xs @ [n]"
  by (simp add: norm_comps_append plain_name_def)

lemma norm_comps_drop_empty: "norm_comps r acc (xs @ [[]]) = norm_comps r acc xs"
  by (simp add: norm_comps_append)

lemma norm_comps_comps_raw_join:
  assumes "plain_name n"
  shows "norm_comps r acc (comps_raw (join a n)) = norm_comps r acc (comps_raw a) @ [n]"
proof (cases "a \<noteq> [] \<and> \<not> is_sep (last a)")
  case True
  then have "replace ''/'' [bslash] (join a n) = replace ''/'' [bslash] a @ bslash # n"
    using plain_name_replace [OF assms] assms by (simp add: join_plain replace_char)
  then show ?thesis
    using assms
    by (simp add: comps_raw_def split_on_append split_on_None plain_name_no_bslash norm_comps_plain)
next
  case False
  show ?thesis
  proof (cases a rule: rev_cases)
    case Nil
    then show ?thesis
      using assms plain_name_replace [OF assms]
      by (simp add: comps_raw_def join_plain split_on_None plain_name_no_bslash plain_name_def)
  next
    case (snoc a' s)
    with False have s: "is_sep s" by simp
    have "replace ''/'' [bslash] (join a n) = replace ''/'' [bslash] a' @ bslash # n"
      using plain_name_replace [OF assms] assms snoc s
      by (auto simp add: join_plain replace_char is_sep_def)
    moreover have "replace ''/'' [bslash] a = replace ''/'' [bslash] a' @ bslash # []"
      using snoc s by (auto simp add: replace_char is_sep_def)
    ultimately show ?thesis
      using assms
      by (simp add: comps_raw_def split_on_append split_on_None plain_name_no_bslash
          norm_comps_plain norm_comps_drop_empty)
  qed
qed

lemma isabs_join: "plain_name n \<Longrightarrow> a \<noteq> [] \<Longrightarrow> isabs (join a n) = isabs a"
  using plain_name_hd [of n] by (cases a) (auto simp: isabs_def join_def)

lemma path_comps_unfold:
  "path_comps p = (if isabs p then None
      else (let cs = norm_comps False [] (comps_raw p)
            in if cs \<noteq> [] \<and> hd cs = ''..'' then None else Some cs))"
  by (simp add: path_comps_def comps_raw_def)

lemma path_comps_join:
  assumes "path_comps a = Some cs" "plain_name n"
  shows "path_comps (join a n) = Some (cs @ [n])"
proof -
  have 1: "\<not> isabs a" "norm_comps False [] (comps_raw a) = cs" "cs = [] \<or> hd cs \<noteq> ''..''"
    using assms(1) by (auto simp: path_comps_unfold Let_def split: if_splits)
  have 2: "norm_comps False [] (comps_raw (join a n)) = cs @ [n]"
    using assms 1 by (simp add: norm_comps_comps_raw_join)
  have 3: "hd (cs @ [n]) \<noteq> ''..''"
    using 1(3) assms(2) by (cases cs) (auto simp: plain_name_def)
  have 4: "\<not> isabs (join a n)"
    using 1(1) assms(2) plain_name_hd [of n] by (cases "a = []") (auto simp: isabs_join, simp add: join_def isabs_def)
  show ?thesis
    using 2 3 4 by (simp add: path_comps_unfold)
qed


subsection \<open>Lower case\<close>

lemma of_char_lower_char:
  "(of_char (lower_char c) :: nat) = (if 65 \<le> (of_char c :: nat) \<and> (of_char c :: nat) \<le> 90 then of_char c + 32 else of_char c)"
  by (simp add: lower_char_def Let_def)

lemma lower_char_idem: "lower_char (lower_char c) = lower_char c"
proof -
  have "(of_char (lower_char (lower_char c)) :: nat) = of_char (lower_char c)"
    by (simp add: of_char_lower_char)
  then show ?thesis by (metis char_of_char)
qed

lemma lower_idem: "lower (lower s) = lower s"
  by (simp add: lower_def lower_char_idem)

lemma lower_char_eq_iff:
  assumes "(of_char d :: nat) < 65 \<or> (of_char d :: nat) = 92"
  shows "lower_char c = d \<longleftrightarrow> c = d"
proof -
  have "lower_char c = d \<longleftrightarrow> (of_char (lower_char c) :: nat) = of_char d"
    by (metis char_of_char)
  also have "\<dots> \<longleftrightarrow> (of_char c :: nat) = of_char d"
    using assms by (auto simp: of_char_lower_char)
  also have "\<dots> \<longleftrightarrow> c = d"
    by (metis char_of_char)
  finally show ?thesis .
qed

lemma lower_char_fixed [simp]:
  "lower_char bslash = bslash" "lower_char CHR ''/'' = CHR ''/''" "lower_char CHR ''.'' = CHR ''.''"
  by (simp_all add: lower_char_def)

lemma lower_char_bslash [simp]: "lower_char c = bslash \<longleftrightarrow> c = bslash"
  by (rule lower_char_eq_iff) simp

lemma lower_char_slash [simp]: "lower_char c = CHR ''/'' \<longleftrightarrow> c = CHR ''/''"
  by (rule lower_char_eq_iff) simp

lemma lower_char_dot [simp]: "lower_char c = CHR ''.'' \<longleftrightarrow> c = CHR ''.''"
  by (rule lower_char_eq_iff) simp

lemma is_sep_lower_char [simp]: "is_sep (lower_char c) = is_sep c"
  by (simp add: is_sep_def)

lemma lower_Nil [simp]: "lower [] = []" "lower s = [] \<longleftrightarrow> s = []"
  by (simp_all add: lower_def)

lemma lower_Cons [simp]: "lower (c # s) = lower_char c # lower s"
  by (simp add: lower_def)

lemma lower_append [simp]: "lower (a @ b) = lower a @ lower b"
  by (simp add: lower_def)

lemma lower_dot [simp]: "lower s = ''.'' \<longleftrightarrow> s = ''.''"
  by (cases s; cases "tl s") auto

lemma lower_dotdot [simp]: "lower s = ''..'' \<longleftrightarrow> s = ''..''"
  by (cases s; cases "tl s"; cases "tl (tl s)") auto

lemma plain_name_lower [simp]: "plain_name (lower n) = plain_name n"
  by (auto simp: plain_name_def list_ex_iff lower_def)

lemma lower_join: "lower (join a b) = join (lower a) (lower b)"
  by (cases a rule: rev_cases; cases b) (auto simp: join_def)

lemma isabs_lower [simp]: "isabs (lower p) = isabs p"
  by (cases p) (auto simp: isabs_def)

lemma split_on_lower: "split_on bslash (lower s) = map lower (split_on bslash s)"
  by (induction s) (auto split: list.splits simp: split_on_nonempty)

lemma comps_raw_lower: "comps_raw (lower p) = map lower (comps_raw p)"
proof -
  have "(if lower_char c = CHR ''/'' then bslash else lower_char c)
      = lower_char (if c = CHR ''/'' then bslash else c)" for c
    by simp
  then have "replace ''/'' [bslash] (lower p) = lower (replace ''/'' [bslash] p)"
    by (simp add: replace_char lower_def comp_def)
  then show ?thesis by (simp add: comps_raw_def split_on_lower)
qed

lemma norm_comps_lower:
  "norm_comps r (map lower acc) (map lower xs) = map lower (norm_comps r acc xs)"
proof (induction xs arbitrary: acc)
  case Nil
  then show ?case by (simp add: rev_map)
next
  case (Cons x xs)
  show ?case
    using Cons [of acc] Cons [of "x # acc"] Cons [of "tl acc"]
    by (cases acc) auto
qed

lemma path_comps_lower: "path_comps (lower p) = map_option (map lower) (path_comps p)"
  using norm_comps_lower [of False "[]" "comps_raw p"]
  by (cases "norm_comps False [] (comps_raw p)") (auto simp: path_comps_unfold comps_raw_lower Let_def)

lemma find_entry_lower [simp]: "find_entry (lower c) es = find_entry c es"
  by (induction es) (auto simp: lower_idem)

lemma lookup_lower [simp]: "lookup n (map lower cs) = lookup n cs"
  by (induction cs arbitrary: n) (auto split: node.splits option.splits)

lemma resolve_lower: "resolve fs (lower p) = resolve fs p"
  by (cases "path_comps p") (auto simp: resolve_def path_comps_lower)

subsection \<open>Walking a well-formed tree\<close>

lemma find_entry_distinct:
  "distinct (map (\<lambda>e. lower (fst e)) es) \<Longrightarrow> e \<in> set es \<Longrightarrow> find_entry (fst e) es = Some (snd e)"
  by (induction es) (auto simp: rev_image_eqI)

lemma lookup_append:
  "lookup n (cs @ ds) = (case lookup n cs of None \<Rightarrow> None | Some n' \<Rightarrow> lookup n' ds)"
  by (induction cs arbitrary: n) (auto split: node.splits option.splits)

lemma concat_concat_map: "concat (concat (map f xs)) = concat (map (\<lambda>x. concat (f x)) xs)"
  by (induction xs) auto

lemma raw_paths_walk:
  "concat (map (\<lambda>(base, ds, fls). map (join base) fls) (walk tp t)) = raw_paths tp t"
proof (induction tp t rule: walk.induct)
  case (1 tp m d)
  then show ?case by simp
next
  case (2 tp m es)
  have "concat (map (\<lambda>x. concat (map (\<lambda>(base, ds, fls). map (join base) fls) (walk (join tp (fst x)) (snd x))))
          (filter (\<lambda>e. is_Dir (snd e)) es))
      = concat (map (\<lambda>e. raw_paths (join tp (fst e)) (snd e)) (filter (\<lambda>e. is_Dir (snd e)) es))"
    using 2 by (intro arg_cong [where f = concat] map_cong) auto
  then show ?case
    by (simp add: map_concat comp_def concat_concat_map)
qed

lemma find_stored_distinct:
  "distinct (map (\<lambda>e. lower (fst e)) es) \<Longrightarrow> e \<in> set es \<Longrightarrow> find_stored (fst e) es = Some e"
  by (induction es) (auto simp: rev_image_eqI)

lemma find_stored_entry: "find_stored c es = Some (k, t) \<Longrightarrow> find_entry c es = Some t"
  by (induction es) (auto split: if_splits)

lemma find_entry_stored: "find_entry c es = Some t \<Longrightarrow> \<exists>k. find_stored c es = Some (k, t)"
  by (induction es) (auto split: if_splits)

lemma find_stored_set: "find_stored c es = Some e \<Longrightarrow> e \<in> set es \<and> lower (fst e) = lower c"
  by (induction es) (auto split: if_splits)

lemma raw_paths_link:
  assumes "wf_tree t" "path_comps tp = Some cs" "p \<in> set (raw_paths tp t)"
  shows "\<exists>rel a b. path_comps p = Some (cs @ rel) \<and> lookup t rel = Some (File a b)
            \<and> stored_path tp t rel = Some p"
  using assms
proof (induction tp t arbitrary: cs rule: raw_paths.induct)
  case (1 tp m d)
  then show ?case by simp
next
  case (2 tp m es)
  from "2.prems"(1) have plain: "\<And>e. e \<in> set es \<Longrightarrow> plain_name (fst e)"
    and dist: "distinct (map (\<lambda>e. lower (fst e)) es)"
    and wf: "\<And>e. e \<in> set es \<Longrightarrow> wf_tree (snd e)"
    by (auto simp: list_all_iff)
  from "2.prems"(3) consider
      (is_file) e where "e \<in> set es" "\<not> is_Dir (snd e)" "p = join tp (fst e)"
    | (is_dir) e where "e \<in> set es" "is_Dir (snd e)" "p \<in> set (raw_paths (join tp (fst e)) (snd e))"
    by auto
  then show ?case
  proof cases
    case is_file
    then obtain a b where sn: "snd e = File a b" by (cases "snd e") (auto simp: is_Dir_def)
    have "find_entry (fst e) es = Some (File a b)"
      using find_entry_distinct [OF dist is_file(1)] sn by simp
    then have "lookup (Dir m es) [fst e] = Some (File a b)" by simp
    moreover have "path_comps p = Some (cs @ [fst e])"
      using path_comps_join [OF "2.prems"(2) plain [OF is_file(1)]] is_file(3) by simp
    moreover have "stored_path tp (Dir m es) [fst e] = Some p"
      using find_stored_distinct [OF dist is_file(1)] is_file(3) by (cases e) simp
    ultimately show ?thesis by blast
  next
    case is_dir
    have pc: "path_comps (join tp (fst e)) = Some (cs @ [fst e])"
      using path_comps_join [OF "2.prems"(2) plain [OF is_dir(1)]] .
    from "2.IH" [OF _ wf [OF is_dir(1)] pc is_dir(3)] is_dir(1,2)
    obtain rel a b where rel: "path_comps p = Some ((cs @ [fst e]) @ rel)"
      "lookup (snd e) rel = Some (File a b)"
      "stored_path (join tp (fst e)) (snd e) rel = Some p" by auto
    have "find_entry (fst e) es = Some (snd e)"
      using find_entry_distinct [OF dist is_dir(1)] by simp
    then have "lookup (Dir m es) (fst e # rel) = Some (File a b)"
      using rel(2) by simp
    moreover have "stored_path tp (Dir m es) (fst e # rel) = Some p"
      using find_stored_distinct [OF dist is_dir(1)] rel(3) by (cases e) simp
    moreover have "path_comps p = Some (cs @ fst e # rel)"
      using rel(1) by simp
    ultimately show ?thesis by blast
  qed
qed

lemma find_entry_set: "find_entry c es = Some t \<Longrightarrow> \<exists>n. (n, t) \<in> set es"
  by (induction es) (auto split: if_splits)

lemma wf_tree_lookup: "wf_tree n \<Longrightarrow> lookup n cs = Some t \<Longrightarrow> wf_tree t"
proof (induction cs arbitrary: n)
  case Nil
  then show ?case by simp
next
  case (Cons c cs)
  then show ?case
    by (cases n) (auto split: option.splits dest!: find_entry_set)
qed

lemma GetFileList_listed:
  assumes "\<not> isabs r" "normpath r = r" "resolve fs r = Some t"
  shows "GetFileList fs r = Inr (sort_key (replace ''/'' [bslash]) (listed r t))"
proof -
  have "concat (map (\<lambda>(base, dirs, files).
                  map lower (filter (\<lambda>x. \<not> sublist WER x) (map (join base) files))) (walk r t))
        = map lower (filter (\<lambda>x. \<not> sublist WER x)
            (concat (map (\<lambda>(base, ds, fls). map (join base) fls) (walk r t))))"
    by (simp add: map_concat filter_concat comp_def case_prod_unfold)
  then show ?thesis
    using assms by (simp add: GetFileList_def os_walk_def raw_paths_walk listed_def)
qed

lemma GetFileList_cases:
  assumes "GetFileList fs r = Inr fl"
  shows "\<not> isabs r \<and> normpath r = r \<and>
         ((resolve fs r = None \<and> fl = []) \<or>
          (\<exists>t. resolve fs r = Some t \<and> fl = sort_key (replace ''/'' [bslash]) (listed r t)))"
proof -
  have a: "\<not> isabs r" "normpath r = r"
    using assms by (auto simp: GetFileList_def split: if_splits)
  show ?thesis
  proof (cases "resolve fs r")
    case None
    then show ?thesis using assms a by (simp add: GetFileList_def os_walk_def)
  next
    case (Some t)
    then show ?thesis using GetFileList_listed [OF a Some] assms a by simp
  qed
qed

lemma listed_resolve:
  assumes "wf_tree fs" "resolve fs r = Some t" "p \<in> set (listed r t)"
  shows "\<exists>q rel a b cs. p = lower q \<and> \<not> sublist WER q \<and> path_comps r = Some cs
           \<and> path_comps q = Some (cs @ rel) \<and> lookup t rel = Some (File a b)
           \<and> stored_path r t rel = Some q \<and> resolve fs p = Some (File a b)"
proof -
  from assms(2) obtain cs where cs: "path_comps r = Some cs" "lookup fs cs = Some t"
    by (auto simp: resolve_def split: option.splits)
  from assms(3) obtain q where q: "p = lower q" "\<not> sublist WER q" "q \<in> set (raw_paths r t)"
    by (auto simp: listed_def)
  have "wf_tree t" using wf_tree_lookup [OF assms(1) cs(2)] .
  from raw_paths_link [OF this cs(1) q(3)] obtain rel a b where
    rel: "path_comps q = Some (cs @ rel)" "lookup t rel = Some (File a b)"
         "stored_path r t rel = Some q" by blast
  have "resolve fs q = Some (File a b)"
    using rel cs by (simp add: resolve_def lookup_append)
  then have "resolve fs p = Some (File a b)"
    using q(1) by (simp add: resolve_lower)
  with q cs rel show ?thesis by blast
qed

lemma GetFileList_files:
  assumes "wf_tree fs" "GetFileList fs r = Inr fl" "p \<in> set fl"
  shows "\<exists>a b. resolve fs p = Some (File a b)"
  using GetFileList_cases [OF assms(2)] listed_resolve [OF assms(1)] assms(3)
  by fastforce

lemma digest_input_total:
  assumes "\<And>p. p \<in> set fl \<Longrightarrow> \<exists>a b. resolve fs p = Some (File a b)"
  shows "\<exists>s. digest_input fs r h fl = (map ReadFile fl, Inr s)"
  using assms
proof (induction fl)
  case Nil
  then show ?case by simp
next
  case (Cons p fl)
  then obtain s where s: "digest_input fs r h fl = (map ReadFile fl, Inr s)" by auto
  from Cons.prems [of p] obtain a b where "resolve fs p = Some (File a b)" by auto
  then have "open_read fs p = Inr b" by (simp add: open_read_def)
  with s show ?case by simp
qed

lemma timestamps_match_total:
  assumes "\<And>p. p \<in> set fl \<Longrightarrow> \<exists>a b. resolve fs p = Some (File a b)"
  shows "\<exists>b. timestamps_match fs vc (zip fl cs) = Inr b"
  using assms
proof (induction fl arbitrary: cs)
  case Nil
  then show ?case by auto
next
  case (Cons p fl)
  from Cons.prems [of p] obtain a b where "resolve fs p = Some (File a b)" by auto
  then have g: "getmtime fs p = Inr a" by (simp add: getmtime_def)
  show ?case
  proof (cases cs)
    case Nil
    then show ?thesis by auto
  next
    case (Cons c cs')
    then show ?thesis
      using Cons.IH [of cs'] Cons.prems g by auto
  qed
qed

section \<open>How \<^verbatim>\<open>CalculateHash\<close> decides\<close>

lemma load_timestamps_absent:
  "\<not> exists fs ts \<Longrightarrow> load_timestamps jl fs ts = ([], Inr \<lparr>ts_files = [], ts_sha1 = []\<rparr>)"
  by (simp add: load_timestamps_def)

lemma load_timestamps_corrupt:
  "open_read fs ts = Inr text \<Longrightarrow> jl text = None \<Longrightarrow>
   load_timestamps jl fs ts = ([ReadFile ts], Inr \<lparr>ts_files = [], ts_sha1 = []\<rparr>)"
  by (auto simp: load_timestamps_def open_read_def exists_def split: option.splits)

lemma load_timestamps_parsed:
  "open_read fs ts = Inr text \<Longrightarrow> jl text = Some d \<Longrightarrow>
   load_timestamps jl fs ts = ([ReadFile ts], Inr d)"
  by (auto simp: load_timestamps_def open_read_def exists_def split: option.splits)

lemma CalculateHash_cached:
  assumes "GetFileList fs (full_root_path rootdir expected_hash) = Inr file_list"
    and "load_timestamps jl fs (MakeTimestampsFileName rootdir expected_hash) = (evs, Inr d)"
    and "length file_list = length (ts_files d)"
    and "timestamps_match fs (lower (join (full_root_path rootdir expected_hash) ''VC''))
           (zip file_list (ts_files d)) = Inr True"
  shows "CalculateHash jl fs rootdir expected_hash = (evs, Inr (ts_sha1 d))"
  using assms by (simp add: CalculateHash_def)

lemma CalculateHash_rehash:
  assumes "GetFileList fs (full_root_path rootdir expected_hash) = Inr file_list"
    and "load_timestamps jl fs (MakeTimestampsFileName rootdir expected_hash) = (evs, Inr d)"
    and "length file_list \<noteq> length (ts_files d) \<or>
         timestamps_match fs (lower (join (full_root_path rootdir expected_hash) ''VC''))
           (zip file_list (ts_files d)) = Inr False"
  shows "CalculateHash jl fs rootdir expected_hash =
           (evs @ calculating (full_root_path rootdir expected_hash)
              # fst (digest_input fs rootdir expected_hash file_list),
            map_sum id sha1_hexdigest (snd (digest_input fs rootdir expected_hash file_list)))"
  using assms by (auto simp add: CalculateHash_def split: prod.splits sum.splits)

lemma timestamps_match_all:
  assumes "map fst cs = fl" "\<forall>(p, t) \<in> set cs. p \<noteq> vc \<longrightarrow> getmtime fs p = Inr t"
  shows "timestamps_match fs vc (zip fl cs) = Inr True"
  using assms by (induction cs arbitrary: fl) auto

lemma sidecar_fast_path:
  assumes "GetFileList fs (full_root_path rootdir expected_hash) = Inr (map fst (ts_files d))"
    and "open_read fs (MakeTimestampsFileName rootdir expected_hash) = Inr text"
    and "jl text = Some d"
    and "\<forall>(p, t) \<in> set (ts_files d).
           p \<noteq> lower (join (full_root_path rootdir expected_hash) ''VC'') \<longrightarrow> getmtime fs p = Inr t"
  shows "CalculateHash jl fs rootdir expected_hash =
           ([ReadFile (MakeTimestampsFileName rootdir expected_hash)], Inr (ts_sha1 d))"
  using CalculateHash_cached [OF assms(1) load_timestamps_parsed [where jl = jl, OF assms(2,3)]]
        timestamps_match_all [OF refl assms(4)]
  by simp

lemma rehash_result:
  assumes "wf_tree fs"
    and "GetFileList fs (full_root_path rootdir expected_hash) = Inr file_list"
    and "load_timestamps jl fs (MakeTimestampsFileName rootdir expected_hash) = (evs, Inr d)"
    and "length file_list \<noteq> length (ts_files d) \<or>
         timestamps_match fs (lower (join (full_root_path rootdir expected_hash) ''VC''))
           (zip file_list (ts_files d)) = Inr False"
  shows "\<exists>s. digest_input fs rootdir expected_hash file_list = (map ReadFile file_list, Inr s)
           \<and> CalculateHash jl fs rootdir expected_hash =
               (evs @ calculating (full_root_path rootdir expected_hash) # map ReadFile file_list,
                Inr (sha1_hexdigest s))"
proof -
  obtain s where s: "digest_input fs rootdir expected_hash file_list = (map ReadFile file_list, Inr s)"
    using digest_input_total [of file_list fs rootdir expected_hash]
          GetFileList_files [OF assms(1,2)] by blast
  show ?thesis
    using CalculateHash_rehash [OF assms(2,3,4)] s by simp
qed

lemma corrupt_sidecar_rehash:
  assumes "wf_tree fs"
    and "GetFileList fs (full_root_path rootdir expected_hash) = Inr file_list"
    and "file_list \<noteq> []"
    and "open_read fs (MakeTimestampsFileName rootdir expected_hash) = Inr text"
    and "jl text = None"
  shows "\<exists>s. digest_input fs rootdir expected_hash file_list = (map ReadFile file_list, Inr s)
           \<and> CalculateHash jl fs rootdir expected_hash =
               (ReadFile (MakeTimestampsFileName rootdir expected_hash)
                  # calculating (full_root_path rootdir expected_hash) # map ReadFile file_list,
                Inr (sha1_hexdigest s))"
  using rehash_result [OF assms(1,2) load_timestamps_corrupt [where jl = jl, OF assms(4,5)]] assms(3)
  by simp

section \<open>The empty version directory\<close>

text \<open>
  C9. If the version directory lists no file and the sidecar is absent or cannot be parsed,
  \<^verbatim>\<open>CalculateHash\<close> returns the empty string, the default \<^verbatim>\<open>sha1\<close> value of
  the empty record: the empty file list matches the empty cached list, nothing is hashed
  (the "Calculating hash" line is not printed), and the result is no SHA-1 digest.
\<close>

theorem empty_directory_returns_default:
  assumes "GetFileList fs (full_root_path rootdir expected_hash) = Inr []"
    and "\<not> exists fs (MakeTimestampsFileName rootdir expected_hash) \<or>
         (\<exists>text. open_read fs (MakeTimestampsFileName rootdir expected_hash) = Inr text
                 \<and> jl text = None)"
  shows "snd (CalculateHash jl fs rootdir expected_hash) = Inr []
     \<and> calculating (full_root_path rootdir expected_hash)
           \<notin> set (fst (CalculateHash jl fs rootdir expected_hash))
     \<and> (\<forall>s. snd (CalculateHash jl fs rootdir expected_hash) \<noteq> Inr (sha1_hexdigest s))"
proof -
  let ?ts = "MakeTimestampsFileName rootdir expected_hash"
  have "\<exists>evs. load_timestamps jl fs ?ts = (evs, Inr \<lparr>ts_files = [], ts_sha1 = []\<rparr>)
           \<and> set evs \<subseteq> {ReadFile ?ts}"
    using assms(2) by (auto simp: load_timestamps_absent load_timestamps_corrupt)
  then obtain evs where lt: "load_timestamps jl fs ?ts = (evs, Inr \<lparr>ts_files = [], ts_sha1 = []\<rparr>)"
    and evs: "set evs \<subseteq> {ReadFile ?ts}" by blast
  have r: "CalculateHash jl fs rootdir expected_hash = (evs, Inr [])"
    using CalculateHash_cached [OF assms(1) lt] by simp
  have "[] \<noteq> sha1_hexdigest s" for s
    using sha1_hexdigest_length [of s] by auto
  with r evs show ?thesis by (auto simp: calculating_def)
qed

theorem empty_directory_returns_default_witness:
  "snd (CalculateHash (\<lambda>text. None) fs_empty_version ''vs_files'' ''abc'') = Inr []
   \<and> calculating (full_root_path ''vs_files'' ''abc'')
         \<notin> set (fst (CalculateHash (\<lambda>text. None) fs_empty_version ''vs_files'' ''abc''))
   \<and> (\<forall>s. snd (CalculateHash (\<lambda>text. None) fs_empty_version ''vs_files'' ''abc'')
           \<noteq> Inr (sha1_hexdigest s))"
proof -
  have h1: "GetFileList fs_empty_version (full_root_path ''vs_files'' ''abc'') = Inr []"
    by code_simp
  have "\<not> exists fs_empty_version (MakeTimestampsFileName ''vs_files'' ''abc'')"
    by code_simp
  then have h2: "\<not> exists fs_empty_version (MakeTimestampsFileName ''vs_files'' ''abc'') \<or>
         (\<exists>text. open_read fs_empty_version (MakeTimestampsFileName ''vs_files'' ''abc'') = Inr text
                 \<and> (\<lambda>text. None :: timestamps_data option) text = None)"
    by blast
  show ?thesis
    using empty_directory_returns_default [OF h1 h2] .
qed

text \<open>
  C3. With a sidecar whose recorded list and times match, the stored hash is returned and
  only the sidecar is read (\<open>sidecar_fast_path\<close>); with a list or a time that differs, the
  files are hashed (\<open>rehash_result\<close>). The claim's "every other case" fails at the version
  directory with no file and no sidecar: the default record matches the empty list and the
  empty string is returned, where hashing the empty list would give the SHA-1 of the empty
  input. The comment of lines 99 to 101 promises the full calculation there.
\<close>

theorem absent_sidecar_empty_directory:
  "\<not> exists fs_empty_version (MakeTimestampsFileName ''vs_files'' ''abc'')
   \<and> GetFileList fs_empty_version (full_root_path ''vs_files'' ''abc'') = Inr []
   \<and> CalculateHash (\<lambda>text. None) fs_empty_version ''vs_files'' ''abc'' = ([], Inr [])
   \<and> digest_input fs_empty_version ''vs_files'' ''abc'' [] = ([], Inr [])
   \<and> sha1_hexdigest [] = ''da39a3ee5e6b4b0d3255bfef95601890afd80709''"
proof -
  have 1: "\<not> exists fs_empty_version (MakeTimestampsFileName ''vs_files'' ''abc'')"
    by code_simp
  have 2: "GetFileList fs_empty_version (full_root_path ''vs_files'' ''abc'') = Inr []"
    by code_simp
  have 3: "CalculateHash (\<lambda>text. None) fs_empty_version ''vs_files'' ''abc'' = ([], Inr [])"
    by code_simp
  show ?thesis using 1 2 3 sha1_empty by simp
qed


text \<open>
  C7. A sidecar that is not JSON is replaced by the empty record and the files are hashed
  (\<open>corrupt_sidecar_rehash\<close>), except where the version directory has no file: there the
  empty record matches, nothing is hashed and the empty string is returned, against the
  comment of line 109 ("empty data will force a re-hash").
\<close>

theorem corrupt_sidecar_empty_directory:
  "open_read fs_corrupt_sidecar (MakeTimestampsFileName ''vs_files'' ''abc'') = Inr ''{not json''
   \<and> GetFileList fs_corrupt_sidecar (full_root_path ''vs_files'' ''abc'') = Inr []
   \<and> CalculateHash (\<lambda>text. None) fs_corrupt_sidecar ''vs_files'' ''abc''
       = ([ReadFile (MakeTimestampsFileName ''vs_files'' ''abc'')], Inr [])
   \<and> digest_input fs_corrupt_sidecar ''vs_files'' ''abc'' [] = ([], Inr [])
   \<and> sha1_hexdigest [] = ''da39a3ee5e6b4b0d3255bfef95601890afd80709''"
proof -
  have 1: "open_read fs_corrupt_sidecar (MakeTimestampsFileName ''vs_files'' ''abc'') = Inr ''{not json''"
    by code_simp
  have 2: "GetFileList fs_corrupt_sidecar (full_root_path ''vs_files'' ''abc'') = Inr []"
    by code_simp
  have 3: "CalculateHash (\<lambda>text. None) fs_corrupt_sidecar ''vs_files'' ''abc''
       = ([ReadFile (MakeTimestampsFileName ''vs_files'' ''abc'')], Inr [])"
    by code_simp
  show ?thesis using 1 2 3 sha1_empty by simp
qed


end
